theory Spec2Isabelle
  imports Complex_Main "HOL-Library.Log_Nat"
begin

section \<open>Numbers, vectors and the drone state\<close>

text \<open>
  The program is \<^verbatim>\<open>adversaryhover_phoenix_modified_train.py\<close>: an adversarial variant of
  the hover task of the phoenix drone simulation. Its numbers are numpy floats. They are
  modelled as real numbers: comparisons, sums and products are those of the reals, and
  rounding, infinities and NaN are left out. The one place where rounding decides a
  property, the round trip of the action wrapper, carries an explicit rounding function.

  Arrays of a fixed shape are tuples: a 3-vector is a triple, a quaternion a 4-tuple, a
  3x3 matrix three rows. Arrays whose length is the number of motors or the dimension of
  the action space are lists.
\<close>

type_synonym vec3 = "real \<times> real \<times> real"
type_synonym quat = "real \<times> real \<times> real \<times> real"
type_synonym mat33 = "vec3 \<times> vec3 \<times> vec3"

text \<open>The elements of a 3-vector, in index order.\<close>

definition elems :: "vec3 \<Rightarrow> real list" where
  "elems v = (case v of (a, b, c) \<Rightarrow> [a, b, c])"

text \<open>
  Modelled from the spec: \<^verbatim>\<open>deg2rad\<close> and \<^verbatim>\<open>rad2deg\<close> are imported from
  \<^verbatim>\<open>phoenix_drone_simulation.envs.utils\<close>, which is not part of the source file. The
  specification gives the attitude bound as 75 degrees and the rate bound as 1000 degrees
  per second for a state that is held in radians, so the two functions are the unit
  conversions \<^verbatim>\<open>x * pi / 180\<close> and \<^verbatim>\<open>x * 180 / pi\<close>.
\<close>

definition deg2rad :: "real \<Rightarrow> real" where
  "deg2rad x = x * pi / 180"

definition rad2deg :: "real \<Rightarrow> real" where
  "rad2deg x = x * 180 / pi"

text \<open>
  The attributes of the agent object \<^verbatim>\<open>self.drone\<close> that the source file reads:
  position, orientation, Euler angles, linear and angular velocity, the motor state
  \<^verbatim>\<open>x\<close> (one entry per motor), the drag coefficient and the body id in the engine.
\<close>

record drone =
  xyz :: vec3
  quaternion :: quat
  rpy :: vec3
  xyz_dot :: vec3
  rpy_dot :: vec3
  motor_x :: "real list"
  DRAG_COEFF :: real
  body_unique_id :: int

section \<open>Episode termination\<close>

text \<open>
  \<^verbatim>\<open>arr[mask].any()\<close>: boolean-mask indexing keeps the entries whose mask is true, and
  \<^verbatim>\<open>any\<close> of a float array is true when some entry is non-zero.
\<close>

definition np_any :: "real list \<Rightarrow> bool" where
  "np_any xs = list_ex (\<lambda>v. v \<noteq> 0) xs"

text \<open>
  \<^verbatim>\<open>compute_done\<close>, lines 312-324. \<^verbatim>\<open>rp = self.drone.rpy[:2]\<close> keeps roll and pitch;
  \<^verbatim>\<open>rpy_dot\<close> is the whole angular-velocity vector.
\<close>

definition compute_done :: "drone \<Rightarrow> bool" where
  "compute_done dr =
     (let rp = take 2 (elems (rpy dr));
          d = deg2rad 75;
          z_limit = (snd (snd (xyz dr)) < 0.2);
          rpy_limit = np_any (filter (\<lambda>v. \<bar>v\<bar> > d) rp);
          rpy_dot' = elems (rpy_dot dr);
          rpy_dot_limit = np_any (filter (\<lambda>v. rad2deg \<bar>v\<bar> > 1000) rpy_dot')
      in if rpy_limit \<or> rpy_dot_limit \<or> z_limit then True else False)"

text \<open>
  The termination rule in the words of the specification: altitude below 0.2, roll or
  pitch beyond 75 degrees, roll rate or pitch rate beyond 1000 degrees per second, the yaw
  rate excluded.
\<close>

definition spec_done :: "drone \<Rightarrow> bool" where
  "spec_done dr =
     (case (xyz dr, rpy dr, rpy_dot dr) of
        ((px, py, pz), (roll, pitch, yaw), (roll_rate, pitch_rate, yaw_rate)) \<Rightarrow>
          pz < 0.2
          \<or> \<bar>roll\<bar> > deg2rad 75 \<or> \<bar>pitch\<bar> > deg2rad 75
          \<or> rad2deg \<bar>roll_rate\<bar> > 1000 \<or> rad2deg \<bar>pitch_rate\<bar> > 1000)"

text \<open>Three concrete states: level hover at 1 m, a pure yaw spin, the two boundaries.\<close>

definition hover_state :: drone where
  "hover_state = \<lparr> xyz = (0, 0, 1), quaternion = (0, 0, 0, 1), rpy = (0, 0, 0),
     xyz_dot = (0, 0, 0), rpy_dot = (0, 0, 0), motor_x = [0, 0, 0, 0],
     DRAG_COEFF = 0, body_unique_id = 0 \<rparr>"

definition yaw_spin_state :: drone where
  "yaw_spin_state = hover_state \<lparr> rpy_dot := (0, 0, 25) \<rparr>"

definition boundary_state :: drone where
  "boundary_state = hover_state \<lparr> xyz := (0, 0, 0.2), rpy := (deg2rad 75, 0, 0) \<rparr>"

section \<open>The physics engine and the agent as a trace of calls\<close>

text \<open>
  The physics engine (\<^verbatim>\<open>self.bc\<close>) and the methods that the classes of the source file
  inherit are not in the source file. Every call that crosses into them is recorded, in
  order, in a trace; what such a call returns is given by a record of collaborator
  functions, each of which may depend on the whole trace so far (the hidden state of the
  engine and of the agent is a function of the calls made).
\<close>

datatype frame = LINK_FRAME | WORLD_FRAME

datatype call =
    Apply_action "real list"
  | Apply_motor_forces "real list"
  | Apply_z_torque real
  | ApplyExternalTorque int int vec3 frame
  | Apply_force vec3
  | Calculate_ground_effect "real list"
  | StepSimulation
  | Update_information
  | Get_state
  | Box_sample
  | Physics_step_forward "real list" vec3
  | Compute_observation
  | Compute_history
  | Compute_reward "real list"
  | Compute_info

record collaborators =
  apply_action :: "call list \<Rightarrow> drone \<Rightarrow> real list \<Rightarrow> (real list \<times> real) \<times> drone"
  calculate_ground_effect :: "call list \<Rightarrow> drone \<Rightarrow> real list \<Rightarrow> bool \<times> real list"
  update_information :: "call list \<Rightarrow> drone \<Rightarrow> drone"
  getMatrixFromQuaternion :: "quat \<Rightarrow> mat33"
  get_state :: "call list \<Rightarrow> drone \<Rightarrow> real list"
  compute_history :: "call list \<Rightarrow> drone \<Rightarrow> real list"
  compute_reward :: "call list \<Rightarrow> drone \<Rightarrow> real list \<Rightarrow> real"
  compute_info :: "call list \<Rightarrow> drone \<Rightarrow> (string \<times> real) list"

text \<open>
  The random source of \<^verbatim>\<open>gym.spaces.Box\<close>: an endless sequence of draws from the unit
  interval and the position of the next one.
\<close>

record rng =
  draws :: "nat \<Rightarrow> real"
  pos :: nat

record box =
  low :: vec3
  high :: vec3

text \<open>
  The environment with its physics object and its agent. \<^verbatim>\<open>self.physics.drone\<close> and
  \<^verbatim>\<open>self.drone\<close> are the same object, so there is one \<open>drone\<close> field;
  \<open>use_ground_effect\<close> is the attribute of the physics object.
\<close>

record sim =
  drone :: drone
  trace :: "call list"
  use_ground_effect :: bool
  aggregate_phy_steps :: int
  iteration :: int
  last_action :: "real list"
  dstb_space :: box
  np_random :: rng

definition emit :: "call \<Rightarrow> sim \<Rightarrow> sim" where
  "emit c s = s \<lparr> trace := trace s @ [c] \<rparr>"

text \<open>The calls that a run added to the trace of the state it started from.\<close>

definition new_calls :: "sim \<Rightarrow> sim \<Rightarrow> call list" where
  "new_calls s s' = drop (length (trace s)) (trace s')"

subsection \<open>The agent's torque methods, lines 107-123\<close>

definition apply_x_torque :: "real \<Rightarrow> sim \<Rightarrow> sim" where
  "apply_x_torque torque s =
     emit (ApplyExternalTorque (body_unique_id (drone s)) 4 (torque, 0, 0) LINK_FRAME) s"

definition apply_y_torque :: "real \<Rightarrow> sim \<Rightarrow> sim" where
  "apply_y_torque torque s =
     emit (ApplyExternalTorque (body_unique_id (drone s)) 4 (0, torque, 0) LINK_FRAME) s"

text \<open>The inherited agent methods only reach the engine; they are calls of the trace.\<close>

definition apply_motor_forces :: "real list \<Rightarrow> sim \<Rightarrow> sim" where
  "apply_motor_forces forces s = emit (Apply_motor_forces forces) s"

definition apply_z_torque :: "real \<Rightarrow> sim \<Rightarrow> sim" where
  "apply_z_torque torque s = emit (Apply_z_torque torque) s"

definition apply_force :: "vec3 \<Rightarrow> sim \<Rightarrow> sim" where
  "apply_force force s = emit (Apply_force force) s"

subsection \<open>The drag model, lines 65-73\<close>

text \<open>\<^verbatim>\<open>c * np.array(vel)\<close> and \<^verbatim>\<open>np.dot(M, v)\<close> for a 3x3 matrix and a 3-vector.\<close>

definition scale :: "real \<Rightarrow> vec3 \<Rightarrow> vec3" where
  "scale c v = (case v of (a, b, d) \<Rightarrow> (c * a, c * b, c * d))"

definition dot3 :: "vec3 \<Rightarrow> vec3 \<Rightarrow> real" where
  "dot3 u v = (case (u, v) of ((a, b, c), (d, e, f)) \<Rightarrow> a * d + b * e + c * f)"

definition np_dot :: "mat33 \<Rightarrow> vec3 \<Rightarrow> vec3" where
  "np_dot m v = (case m of (r0, r1, r2) \<Rightarrow> (dot3 r0 v, dot3 r1 v, dot3 r2 v))"

text \<open>
  \<^verbatim>\<open>pb.getMatrixFromQuaternion(quat)\<close> returns nine numbers in row-major order and
  \<^verbatim>\<open>reshape(3, 3)\<close> groups them into rows; \<open>mat33\<close> is the result of both.
\<close>

definition drag_force :: "collaborators \<Rightarrow> drone \<Rightarrow> vec3" where
  "drag_force K dr =
     (let quat = quaternion dr;
          vel = xyz_dot dr;
          base_rot = getMatrixFromQuaternion K quat;
          rpm = map (\<lambda>v. v ^ 2 * 25000) (motor_x dr);
          drag_factors = -1 * DRAG_COEFF dr * sum_list (map (\<lambda>r. 2 * pi * r / 60) rpm);
          drag = np_dot base_rot (scale drag_factors vel)
      in drag)"

subsection \<open>One physics substep, \<^verbatim>\<open>step_forward\<close>, lines 47-84\<close>

definition step_forward :: "collaborators \<Rightarrow> real list \<Rightarrow> vec3 \<Rightarrow> sim \<Rightarrow> sim" where
  "step_forward K action dstb s0 =
     (let ((motor_forces, z_torque), dr1) = apply_action K (trace s0) (drone s0) action;
          s1 = emit (Apply_action action) (s0 \<lparr> drone := dr1 \<rparr>);
          s2 = apply_motor_forces motor_forces s1;
          s3 = apply_z_torque z_torque s2;
          s4 = apply_x_torque (fst dstb) s3;
          s5 = apply_y_torque (fst (snd dstb)) s4;
          drag = drag_force K (drone s5);
          s6 = apply_force drag s5;
          (apply_ground_eff, ge_forces) =
             calculate_ground_effect K (trace s6) (drone s6) motor_forces;
          s7 = emit (Calculate_ground_effect motor_forces) s6;
          s8 = (if apply_ground_eff \<and> use_ground_effect s7
                then apply_motor_forces ge_forces s7 else s7);
          s9 = emit StepSimulation s8;
          s10 = emit Update_information
                  (s9 \<lparr> drone := update_information K (trace s9) (drone s9) \<rparr>)
      in s10)"


subsection \<open>The disturbance generator, lines 178-181\<close>

text \<open>
  Modelled from the spec: \<^verbatim>\<open>gym.spaces.Box.sample\<close> is not in the source file. Section 4.2
  has it return "a 3-vector uniformly drawn from the configured per-axis symmetric
  bound"; a uniform draw from an interval is \<open>low + (high - low) * u\<close> for a draw \<open>u\<close>
  of the unit interval, one per axis.
\<close>

definition random_sample :: "rng \<Rightarrow> real \<times> rng" where
  "random_sample g = (draws g (pos g), g \<lparr> pos := pos g + 1 \<rparr>)"

definition uniform :: "real \<Rightarrow> real \<Rightarrow> rng \<Rightarrow> real \<times> rng" where
  "uniform lo hi g = (let (u, g') = random_sample g in (lo + (hi - lo) * u, g'))"

definition Box_sample_of :: "box \<Rightarrow> rng \<Rightarrow> vec3 \<times> rng" where
  "Box_sample_of b g =
     (case (low b, high b) of ((l0, l1, l2), (h0, h1, h2)) \<Rightarrow>
        let (d0, g0) = uniform l0 h0 g;
            (d1, g1) = uniform l1 h1 g0;
            (d2, g2) = uniform l2 h2 g1
        in ((d0, d1, d2), g2))"

text \<open>
  Lines 178-181 of \<^verbatim>\<open>__init__\<close>: the disturbance box, and \<^verbatim>\<open>dstb_gen\<close>, the lambda
  that samples it. \<^verbatim>\<open>10**-3\<close> is the float 0.001.
\<close>

definition configured_dstb_space :: box where
  "configured_dstb_space =
     \<lparr> low = (-1 * 10 powi (-3), -1 * 10 powi (-3), -1 * 10 powi (-4)),
       high = (1 * 10 powi (-3), 1 * 10 powi (-3), 1 * 10 powi (-4)) \<rparr>"

definition init_dstb :: "sim \<Rightarrow> sim" where
  "init_dstb s = s \<lparr> dstb_space := configured_dstb_space \<rparr>"

definition dstb_gen :: "real list \<Rightarrow> sim \<Rightarrow> vec3 \<times> sim" where
  "dstb_gen x s =
     (let (d, g) = Box_sample_of (dstb_space s) (np_random s)
      in (d, emit Box_sample (s \<lparr> np_random := g \<rparr>)))"

subsection \<open>One control step, \<^verbatim>\<open>step\<close>, lines 253-301\<close>

text \<open>
  The loop \<^verbatim>\<open>for _ in range(self.aggregate_phy_steps)\<close>, with the number of rounds left as
  the recursion argument. The physics object of this environment is always a
  \<^verbatim>\<open>PybulletPhysicsWithAdversary\<close> (line 162), so \<^verbatim>\<open>self.physics.step_forward\<close> is the
  function above; the call itself is recorded with its two arguments.
\<close>

fun substeps :: "collaborators \<Rightarrow> nat \<Rightarrow> real list \<Rightarrow> vec3 \<Rightarrow> sim \<Rightarrow> sim" where
  "substeps K 0 action dstb s = s"
| "substeps K (Suc n) action dstb s =
     (let s1 = step_forward K action dstb (emit (Physics_step_forward action dstb) s);
          s2 = emit Compute_observation s1;
          s3 = s2 \<lparr> iteration := iteration s2 + 1 \<rparr>
      in substeps K n action dstb s3)"

text \<open>\<^verbatim>\<open>range(n)\<close> is empty for a negative \<open>n\<close>, so the loop runs \<open>nat n\<close> rounds.\<close>

definition step ::
  "collaborators \<Rightarrow> real list \<Rightarrow> sim \<Rightarrow> (real list \<times> real \<times> bool \<times> (string \<times> real) list) \<times> sim"
where
  "step K action s0 =
     (let x = get_state K (trace s0) (drone s0);
          s1 = emit Get_state s0;
          (dstb, s2) = dstb_gen x s1;
          s3 = substeps K (nat (aggregate_phy_steps s2)) action dstb s2;
          next_obs = compute_history K (trace s3) (drone s3);
          s4 = emit Compute_history s3;
          r = compute_reward K (trace s4) (drone s4) action;
          s5 = emit (Compute_reward action) s4;
          info = compute_info K (trace s5) (drone s5);
          s6 = emit Compute_info s5;
          done' = compute_done (drone s6);
          s7 = s6 \<lparr> last_action := action \<rparr>
      in ((next_obs, r, done', info), s7))"

text \<open>What \<^verbatim>\<open>step\<close> hands to the disturbance generator and gets back.\<close>

definition step_dstb :: "collaborators \<Rightarrow> sim \<Rightarrow> vec3" where
  "step_dstb K s0 =
     fst (dstb_gen (get_state K (trace s0) (drone s0)) (emit Get_state s0))"

definition is_step_forward :: "call \<Rightarrow> bool" where
  "is_step_forward c = (case c of Physics_step_forward a d \<Rightarrow> True | _ \<Rightarrow> False)"

definition is_external_torque :: "call \<Rightarrow> bool" where
  "is_external_torque c = (case c of ApplyExternalTorque b l t f \<Rightarrow> True | _ \<Rightarrow> False)"

definition is_apply_force :: "call \<Rightarrow> bool" where
  "is_apply_force c = (case c of Apply_force f \<Rightarrow> True | _ \<Rightarrow> False)"

section \<open>Simulation setup, \<^verbatim>\<open>_setup_simulation\<close>, lines 202-248\<close>

datatype error = NotImplementedError | AssertionError

datatype agent_class =
  CrazyFlieBulletAgent | CrazyFlieSimpleAgent | CrazyFlieBulletAgentWithAdversary

datatype setup_call =
    SetAdditionalSearchPath
  | Bc_loadURDF string
  | Pb_loadURDF_asset string
  | Print string
  | New_agent agent_class
  | New_physics string
  | Super_setup_task_specifics
  | ResetDebugVisualizerCamera

text \<open>
  The attributes of the environment that the setup reads and writes. \<open>agent\<close> is
  \<^verbatim>\<open>self.drone\<close> and \<open>physics\<close> is \<^verbatim>\<open>self.physics\<close>, \<open>None\<close> while not yet assigned;
  \<open>physics_module\<close> is the list of attribute names of the module
  \<^verbatim>\<open>phoenix_drone_simulation.envs.physics\<close>.
\<close>

record env_setup =
  drone_model :: string
  G :: real
  g :: real
  TIME_STEP :: real
  time_step :: real
  PLANE_ID :: "int option"
  agent :: "agent_class option"
  physics :: "string option"
  physics_module :: "string list"
  setup_trace :: "setup_call list"

definition log :: "setup_call \<Rightarrow> env_setup \<Rightarrow> env_setup" where
  "log c e = e \<lparr> setup_trace := setup_trace e @ [c] \<rparr>"

text \<open>Lines 188-197: the overridden \<^verbatim>\<open>_setup_task_specifics\<close>.\<close>

definition setup_task_specifics :: "env_setup \<Rightarrow> env_setup" where
  "setup_task_specifics e = log ResetDebugVisualizerCamera (log Super_setup_task_specifics e)"

text \<open>Lines 232-248: what follows once the agent exists.\<close>

definition setup_physics :: "string \<Rightarrow> env_setup \<Rightarrow> error option \<times> env_setup" where
  "setup_physics physics_name e0 =
     (let e1 = e0 \<lparr> physics_module :=
                  (if ''PybulletPhysicsWithAdversary'' \<in> set (physics_module e0)
                   then physics_module e0
                   else physics_module e0 @ [''PybulletPhysicsWithAdversary'']) \<rparr>
      in if physics_name \<notin> set (physics_module e1) then (Some AssertionError, e1)
         else if physics_name = ''PybulletPhysicsWithAdversary''
                 \<and> drone_model e1 \<noteq> ''cf21x_bullet_adversary''
         then (Some AssertionError, e1)
         else
           (let e2 = (log (New_physics physics_name) e1) \<lparr> physics := Some physics_name \<rparr>;
                e3 = setup_task_specifics e2
            in (None, e3)))"

text \<open>
  The result is the exception raised, if any, and the environment as the call leaves it.
  \<open>plane_id\<close> is the body id that the engine returns for the plane.
\<close>

definition setup_simulation :: "int \<Rightarrow> string \<Rightarrow> env_setup \<Rightarrow> error option \<times> env_setup" where
  "setup_simulation plane_id physics_name e0 =
     (let e1 = e0 \<lparr> g := G e0 \<rparr>;
          e2 = e1 \<lparr> time_step := TIME_STEP e1 \<rparr>;
          e3 = log SetAdditionalSearchPath e2;
          e4 = (log (Bc_loadURDF ''plane.urdf'') e3) \<lparr> PLANE_ID := Some plane_id \<rparr>;
          e5 = log (Pb_loadURDF_asset ''room_10x10.urdf'') e4
      in if drone_model e5 = ''cf21x_bullet'' then
           setup_physics physics_name
             ((log (New_agent CrazyFlieBulletAgent) e5) \<lparr> agent := Some CrazyFlieBulletAgent \<rparr>)
         else if drone_model e5 = ''cf21x_sys_eq'' then
           setup_physics physics_name
             ((log (New_agent CrazyFlieSimpleAgent) e5) \<lparr> agent := Some CrazyFlieSimpleAgent \<rparr>)
         else if drone_model e5 = ''cf21x_bullet_adversary'' then
           setup_physics physics_name
             ((log (New_agent CrazyFlieBulletAgentWithAdversary)
                 (log (Print ''Loading drone model:'') e5))
                \<lparr> agent := Some CrazyFlieBulletAgentWithAdversary \<rparr>)
         else (Some NotImplementedError, e5))"

section \<open>The action wrapper, \<^verbatim>\<open>NormalizeActionSpaceWrapper\<close>, lines 125-151\<close>

text \<open>
  An arithmetic operator on two one-dimensional arrays works entry by entry; an array of
  length one is broadcast; any other pair of different lengths raises \<^verbatim>\<open>ValueError\<close>.
\<close>

datatype np_error = ValueError

definition np_binop :: "('a \<Rightarrow> 'a \<Rightarrow> 'a) \<Rightarrow> 'a list \<Rightarrow> 'a list \<Rightarrow> np_error + 'a list" where
  "np_binop f xs ys =
     (if length xs = length ys then Inr (map2 f xs ys)
      else if length xs = 1 then Inr (map (f (hd xs)) ys)
      else if length ys = 1 then Inr (map (\<lambda>x. f x (hd ys)) xs)
      else Inl ValueError)"

definition and_then :: "'e + 'a \<Rightarrow> ('a \<Rightarrow> 'e + 'b) \<Rightarrow> 'e + 'b" where
  "and_then r f = (case r of Inl e \<Rightarrow> Inl e | Inr v \<Rightarrow> f v)"

text \<open>
  The two transforms, operation by operation in the order Python evaluates them. \<open>rnd\<close>
  is applied to the result of every arithmetic operation: the identity gives exact
  arithmetic, \<open>fl 53\<close> and \<open>fl 24\<close> below give the rounding of float64 and float32.
  \<open>lo\<close> and \<open>hi\<close> are \<^verbatim>\<open>self.action_space_low\<close> and \<^verbatim>\<open>self.action_space_high\<close>. A zero
  width \<open>hi - lo\<close>, where numpy divides by zero, is outside what is proved here.
\<close>

definition normalize_action ::
  "('a::field \<Rightarrow> 'a) \<Rightarrow> 'a list \<Rightarrow> 'a list \<Rightarrow> 'a list \<Rightarrow> np_error + 'a list" where
  "normalize_action rnd lo hi action =
     and_then (np_binop (\<lambda>a l. rnd (a - l)) action lo) (\<lambda>num.
     and_then (np_binop (\<lambda>h l. rnd (h - l)) hi lo) (\<lambda>width.
     and_then (np_binop (\<lambda>n w. rnd (n / w)) num width) (\<lambda>q.
     Inr (map (\<lambda>v. rnd (rnd (2 * v) - 1)) q))))"

definition denormalize_action ::
  "('a::field \<Rightarrow> 'a) \<Rightarrow> 'a list \<Rightarrow> 'a list \<Rightarrow> 'a list \<Rightarrow> np_error + 'a list" where
  "denormalize_action rnd lo hi action =
     (let half = map (\<lambda>a. rnd (rnd (a + 1) / 2)) action in
      and_then (np_binop (\<lambda>h l. rnd (h - l)) hi lo) (\<lambda>width.
      and_then (np_binop (\<lambda>p w. rnd (p * w)) half width) (\<lambda>scaled.
      np_binop (\<lambda>v l. rnd (v + l)) scaled lo)))"

text \<open>Lines 135-143: \<^verbatim>\<open>action\<close> and \<^verbatim>\<open>reverse_action\<close>.\<close>

definition action_of ::
  "('a::field \<Rightarrow> 'a) \<Rightarrow> 'a list \<Rightarrow> 'a list \<Rightarrow> 'a list \<Rightarrow> np_error + 'a list" where
  "action_of rnd lo hi action = denormalize_action rnd lo hi action"

definition reverse_action ::
  "('a::field \<Rightarrow> 'a) \<Rightarrow> 'a list \<Rightarrow> 'a list \<Rightarrow> 'a list \<Rightarrow> np_error + 'a list" where
  "reverse_action rnd lo hi action = normalize_action rnd lo hi action"

subsection \<open>Binary floating point\<close>

text \<open>
  Rounding of a rational to the nearest binary floating-point number with \<open>p\<close>
  significant bits, ties to the even significand, as IEEE 754 arithmetic rounds the
  exact result of an operation. The exponent range is unbounded: overflow and
  subnormal numbers are not modelled. \<open>binade q\<close> is the exponent \<open>e\<close> with
  \<open>2\<^sup>e \<le> |q| < 2\<^sup>e\<^sup>+\<^sup>1\<close>.
\<close>

definition round_half_even :: "rat \<Rightarrow> int" where
  "round_half_even q =
     (let f = \<lfloor>q\<rfloor>; r = q - of_int f
      in if r < 1 / 2 then f else if 1 / 2 < r then f + 1
         else if even f then f else f + 1)"

definition binade :: "rat \<Rightarrow> int" where
  "binade q =
     (case quotient_of \<bar>q\<bar> of (n, d) \<Rightarrow>
        let k = bitlen n - bitlen d in if 2 powi k \<le> \<bar>q\<bar> then k else k - 1)"

definition fl :: "nat \<Rightarrow> rat \<Rightarrow> rat" where
  "fl p q =
     (if q = 0 then 0
      else let u = 2 powi (binade q - int p + 1)
           in of_int (round_half_even (q / u)) * u)"

section \<open>Concrete inputs\<close>

text \<open>
  Stand-ins for the collaborators, to run the model on concrete inputs: motors that
  follow the command with a first-order lag and push with the square of their state, a
  ground effect below 0.1 m, an engine update that leaves the drone as it is, and the
  identity rotation.
\<close>

definition lag_agent :: collaborators where
  "lag_agent =
     \<lparr> apply_action = (\<lambda>tr dr a.
          let x' = map2 (\<lambda>x u. x / 2 + u / 2) (motor_x dr) a
          in ((map (\<lambda>v. v * v) x', 0), dr \<lparr> motor_x := x' \<rparr>)),
       calculate_ground_effect = (\<lambda>tr dr forces. (snd (snd (xyz dr)) < 0.1, forces)),
       update_information = (\<lambda>tr dr. dr),
       getMatrixFromQuaternion = (\<lambda>q. ((1, 0, 0), (0, 1, 0), (0, 0, 1))),
       get_state = (\<lambda>tr dr. elems (xyz dr)),
       compute_history = (\<lambda>tr dr. elems (xyz dr)),
       compute_reward = (\<lambda>tr dr a. 0),
       compute_info = (\<lambda>tr dr. []) \<rparr>"

text \<open>
  An environment in which the motors spin at full state while the drone drifts along x
  at 1 m/s, all draws of the random source being 1/2.
\<close>

definition spinning_sim :: sim where
  "spinning_sim =
     \<lparr> drone = hover_state \<lparr> xyz_dot := (1, 0, 0), motor_x := [1, 1, 1, 1], DRAG_COEFF := 1 \<rparr>,
       trace = [],
       use_ground_effect = True,
       aggregate_phy_steps = 2,
       iteration = 0,
       last_action = [],
       dstb_space = configured_dstb_space,
       np_random = \<lparr> draws = (\<lambda>k. 1 / 2), pos = 0 \<rparr> \<rparr>"

definition unknown_model_env :: env_setup where
  "unknown_model_env =
     \<lparr> drone_model = ''cf21x_unknown'', G = 9.81, g = 0, TIME_STEP = 0.005, time_step = 0,
       PLANE_ID = None, agent = None, physics = None,
       physics_module = [''PyBulletPhysics'', ''SimplePhysics''], setup_trace = [] \<rparr>"

text \<open>
  The drone of \<open>spinning_sim\<close> after the lagging motors have taken a zero command, and
  the same drone at rest, turned half a turn about the z-axis.
\<close>

definition half_spin :: drone where
  "half_spin = (drone spinning_sim) \<lparr> motor_x := [1 / 2, 1 / 2, 1 / 2, 1 / 2] \<rparr>"

definition spinning_at_rest :: drone where
  "spinning_at_rest = (drone spinning_sim) \<lparr> xyz_dot := (0, 0, 0), quaternion := (0, 0, 1, 0) \<rparr>"

text \<open>The same environment with a random source whose first draw is 0 and whose others are 3/4.\<close>

definition edge_draws_sim :: sim where
  "edge_draws_sim = spinning_sim \<lparr> np_random := \<lparr> draws = (\<lambda>k. if k = 0 then 0 else 3 / 4), pos = 0 \<rparr> \<rparr>"

text \<open>The setup state of the adversarial environment itself.\<close>

definition adversary_env :: env_setup where
  "adversary_env = unknown_model_env \<lparr> drone_model := ''cf21x_bullet_adversary'' \<rparr>"

section \<open>Properties of the termination check\<close>

lemma deg2rad_75_pos: "0 < deg2rad 75"
  by (simp add: deg2rad_def)

lemma np_any_filter_gt:
  assumes "0 \<le> c"
  shows "np_any (filter (\<lambda>v. \<bar>v\<bar> > c) xs) = list_ex (\<lambda>v. \<bar>v\<bar> > c) xs"
  using assms by (induction xs) (auto simp: np_any_def)

lemma rad2deg_abs_gt_nonzero: "rad2deg \<bar>v\<bar> > 1000 \<Longrightarrow> v \<noteq> 0"
  by (auto simp: rad2deg_def)

lemma np_any_filter_rate:
  "np_any (filter (\<lambda>v. rad2deg \<bar>v\<bar> > 1000) xs) = list_ex (\<lambda>v. rad2deg \<bar>v\<bar> > 1000) xs"
  by (induction xs) (auto simp: np_any_def dest: rad2deg_abs_gt_nonzero)

text \<open>
  C1 (as amended). \<^verbatim>\<open>compute_done\<close> is true exactly when the altitude is strictly below
  0.2, or roll or pitch is strictly beyond 75 degrees in magnitude, or one of the three
  angular rates (roll, pitch and yaw) is strictly beyond 1000 degrees per second in
  magnitude. The yaw rate takes part in the rate check.
\<close>

theorem compute_done_iff:
  "compute_done dr =
     (case (xyz dr, rpy dr, rpy_dot dr) of
        ((px, py, pz), (roll, pitch, yaw), (roll_rate, pitch_rate, yaw_rate)) \<Rightarrow>
          pz < 0.2
          \<or> \<bar>roll\<bar> > deg2rad 75 \<or> \<bar>pitch\<bar> > deg2rad 75
          \<or> rad2deg \<bar>roll_rate\<bar> > 1000 \<or> rad2deg \<bar>pitch_rate\<bar> > 1000
          \<or> rad2deg \<bar>yaw_rate\<bar> > 1000)"
proof -
  obtain px py pz where p: "xyz dr = (px, py, pz)" by (cases "xyz dr") auto
  obtain roll pitch yaw where a: "rpy dr = (roll, pitch, yaw)" by (cases "rpy dr") auto
  obtain rr pr yr where r: "rpy_dot dr = (rr, pr, yr)" by (cases "rpy_dot dr") auto
  have d: "0 \<le> deg2rad 75" using deg2rad_75_pos by simp
  show ?thesis
    unfolding compute_done_def Let_def np_any_filter_gt [OF d] np_any_filter_rate
    by (auto simp: p a r elems_def)
qed

theorem compute_done_iff_witness:
  "\<not> compute_done boundary_state \<and> \<not> compute_done hover_state"
proof -
  have "\<not> compute_done boundary_state"
    unfolding compute_done_iff [of boundary_state]
    using deg2rad_75_pos by (simp add: boundary_state_def hover_state_def rad2deg_def)
  moreover have "\<not> compute_done hover_state"
    unfolding compute_done_iff [of hover_state]
    using deg2rad_75_pos by (simp add: hover_state_def rad2deg_def)
  ultimately show ?thesis by simp
qed

text \<open>
  The rule as the specification words it fails on a pure yaw spin of 25 rad/s (about
  1432 degrees per second): the code ends the episode, the worded rule does not.
\<close>

theorem compute_done_yaw_counterexample:
  "compute_done yaw_spin_state \<and> \<not> spec_done yaw_spin_state"
proof -
  have big: "rad2deg 25 > 1000"
    using pi_less_4 pi_gt_zero by (simp add: rad2deg_def field_simps)
  have "compute_done yaw_spin_state"
    by (simp add: compute_done_def Let_def yaw_spin_state_def hover_state_def elems_def
        np_any_def big)
  moreover have "\<not> spec_done yaw_spin_state"
    using deg2rad_75_pos
    by (simp add: spec_done_def yaw_spin_state_def hover_state_def rad2deg_def)
  ultimately show ?thesis by simp
qed

section \<open>Properties of the physics substep\<close>

lemma trace_emit: "trace (emit c s) = trace s @ [c]"
  by (simp add: emit_def)

lemma drone_emit: "drone (emit c s) = drone s"
  by (simp add: emit_def)

lemma use_ground_effect_emit: "use_ground_effect (emit c s) = use_ground_effect s"
  by (simp add: emit_def)

lemma new_calls_append: "trace s' = trace s @ ext \<Longrightarrow> new_calls s s' = ext"
  by (simp add: new_calls_def)

lemma step_forward_trace:
  fixes dstb :: vec3
  assumes act: "apply_action K (trace s) (drone s) action = ((motor_forces, z_torque), dr1)"
  defines "queued \<equiv>
     [Apply_action action, Apply_motor_forces motor_forces, Apply_z_torque z_torque,
      ApplyExternalTorque (body_unique_id dr1) 4 (fst dstb, 0, 0) LINK_FRAME,
      ApplyExternalTorque (body_unique_id dr1) 4 (0, fst (snd dstb), 0) LINK_FRAME,
      Apply_force (drag_force K dr1)]"
  assumes ge: "calculate_ground_effect K (trace s @ queued) dr1 motor_forces
                 = (apply_ground_eff, ge_forces)"
  shows "trace (step_forward K action dstb s) =
           trace s @ queued @ [Calculate_ground_effect motor_forces]
           @ (if apply_ground_eff \<and> use_ground_effect s then [Apply_motor_forces ge_forces] else [])
           @ [StepSimulation, Update_information]"
  using ge unfolding queued_def step_forward_def
  by (simp add: act Let_def apply_motor_forces_def apply_z_torque_def apply_x_torque_def
      apply_y_torque_def apply_force_def trace_emit drone_emit use_ground_effect_emit)

lemma drag_force_closed:
  "drag_force K dr =
     np_dot (getMatrixFromQuaternion K (quaternion dr))
       (scale (- DRAG_COEFF dr * (\<Sum>v\<leftarrow>motor_x dr. 2 * pi * (25000 * v ^ 2) / 60)) (xyz_dot dr))"
proof -
  have h: "(\<lambda>r. 2 * pi * r / 60) \<circ> (\<lambda>v. v ^ 2 * 25000) = (\<lambda>v::real. 2 * pi * (25000 * v ^ 2) / 60)"
    by (rule ext) simp
  show ?thesis
    unfolding drag_force_def Let_def map_map h by simp
qed

text \<open>
  C9. Every call of \<^verbatim>\<open>step_forward\<close> adds to the trace, in this order: the computation of
  the motor forces and the yaw torque from the action, the motor forces, the yaw torque,
  the x-axis and the y-axis disturbance torque, the drag force, the evaluation of the
  ground effect, the ground-effect forces exactly when the predicate holds and
  \<open>use_ground_effect\<close> is set, one \<open>StepSimulation\<close>, and the refresh of the agent state;
  no other \<open>StepSimulation\<close> occurs.
\<close>

theorem step_forward_order:
  fixes dstb :: vec3
  assumes act: "apply_action K (trace s) (drone s) action = ((motor_forces, z_torque), dr1)"
  defines "queued \<equiv>
     [Apply_action action, Apply_motor_forces motor_forces, Apply_z_torque z_torque,
      ApplyExternalTorque (body_unique_id dr1) 4 (fst dstb, 0, 0) LINK_FRAME,
      ApplyExternalTorque (body_unique_id dr1) 4 (0, fst (snd dstb), 0) LINK_FRAME,
      Apply_force (drag_force K dr1)]"
  assumes ge: "calculate_ground_effect K (trace s @ queued) dr1 motor_forces
                 = (apply_ground_eff, ge_forces)"
  shows "new_calls s (step_forward K action dstb s) =
           queued @ [Calculate_ground_effect motor_forces]
           @ (if apply_ground_eff \<and> use_ground_effect s then [Apply_motor_forces ge_forces] else [])
           @ [StepSimulation, Update_information]
         \<and> length (filter (\<lambda>c. c = StepSimulation) (new_calls s (step_forward K action dstb s))) = 1"
proof -
  have tr: "trace (step_forward K action dstb s) =
           trace s @ queued @ [Calculate_ground_effect motor_forces]
           @ (if apply_ground_eff \<and> use_ground_effect s then [Apply_motor_forces ge_forces] else [])
           @ [StepSimulation, Update_information]"
    using step_forward_trace [OF act ge [unfolded queued_def]] by (simp add: queued_def)
  have nc: "new_calls s (step_forward K action dstb s) =
           queued @ [Calculate_ground_effect motor_forces]
           @ (if apply_ground_eff \<and> use_ground_effect s then [Apply_motor_forces ge_forces] else [])
           @ [StepSimulation, Update_information]"
    by (rule new_calls_append [OF tr])
  show ?thesis
    unfolding nc by (simp add: queued_def)
qed

lemma lag_agent_act:
  "apply_action lag_agent (trace spinning_sim) (drone spinning_sim) [0, 0, 0, 0]
     = (([1 / 4, 1 / 4, 1 / 4, 1 / 4], 0), half_spin)"
  by (simp add: lag_agent_def spinning_sim_def hover_state_def half_spin_def)

lemma lag_agent_ge:
  "calculate_ground_effect lag_agent tr half_spin forces = (False, forces)"
  by (simp add: lag_agent_def spinning_sim_def hover_state_def half_spin_def)

lemma half_spin_drag: "drag_force lag_agent half_spin = (- (2500 * pi / 3), 0, 0)"
  by (simp add: drag_force_closed lag_agent_def spinning_sim_def hover_state_def half_spin_def
      np_dot_def dot3_def scale_def power2_eq_square)

text \<open>The order on the spinning drone with a zero command, above the ground-effect height.\<close>

theorem step_forward_order_witness:
  "new_calls spinning_sim
     (step_forward lag_agent [0, 0, 0, 0] (1 / 1000, - 1 / 1000, 1 / 10000) spinning_sim) =
   [Apply_action [0, 0, 0, 0], Apply_motor_forces [1 / 4, 1 / 4, 1 / 4, 1 / 4],
    Apply_z_torque 0,
    ApplyExternalTorque 0 4 (1 / 1000, 0, 0) LINK_FRAME,
    ApplyExternalTorque 0 4 (0, - 1 / 1000, 0) LINK_FRAME,
    Apply_force (- (2500 * pi / 3), 0, 0),
    Calculate_ground_effect [1 / 4, 1 / 4, 1 / 4, 1 / 4],
    StepSimulation, Update_information]"
  using step_forward_order [OF lag_agent_act lag_agent_ge, of "(1 / 1000, - 1 / 1000, 1 / 10000)"]
  by (simp add: half_spin_drag) (simp add: half_spin_def spinning_sim_def hover_state_def)


lemma step_forward_new_calls:
  fixes dstb :: vec3
  assumes act: "apply_action K (trace s) (drone s) action = ((motor_forces, z_torque), dr1)"
  shows "\<exists>ground. set ground \<subseteq> {Apply_motor_forces f | f. True} \<and>
           new_calls s (step_forward K action dstb s) =
             [Apply_action action, Apply_motor_forces motor_forces, Apply_z_torque z_torque,
              ApplyExternalTorque (body_unique_id dr1) 4 (fst dstb, 0, 0) LINK_FRAME,
              ApplyExternalTorque (body_unique_id dr1) 4 (0, fst (snd dstb), 0) LINK_FRAME,
              Apply_force (drag_force K dr1), Calculate_ground_effect motor_forces]
             @ ground @ [StepSimulation, Update_information]"
proof -
  let ?queued = "[Apply_action action, Apply_motor_forces motor_forces, Apply_z_torque z_torque,
      ApplyExternalTorque (body_unique_id dr1) 4 (fst dstb, 0, 0) LINK_FRAME,
      ApplyExternalTorque (body_unique_id dr1) 4 (0, fst (snd dstb), 0) LINK_FRAME,
      Apply_force (drag_force K dr1)]"
  obtain ag gf where ge:
    "calculate_ground_effect K (trace s @ ?queued) dr1 motor_forces = (ag, gf)"
    by (cases "calculate_ground_effect K (trace s @ ?queued) dr1 motor_forces") auto
  let ?ground = "if ag \<and> use_ground_effect s then [Apply_motor_forces gf] else []"
  have "new_calls s (step_forward K action dstb s) =
          ?queued @ [Calculate_ground_effect motor_forces] @ ?ground
          @ [StepSimulation, Update_information]"
    by (rule new_calls_append) (use step_forward_trace [OF act ge] in simp)
  moreover have "set ?ground \<subseteq> {Apply_motor_forces f | f. True}" by auto
  ultimately show ?thesis by (intro exI [of _ ?ground]) simp
qed

lemma filter_ground:
  assumes "set ground \<subseteq> {Apply_motor_forces f | f. True}"
  shows "filter is_external_torque ground = []" and "filter is_apply_force ground = []"
  using assms by (auto simp: filter_empty_conv is_external_torque_def is_apply_force_def)

lemma step_forward_ignores_z:
  "step_forward K action (d0, d1, d2) s = step_forward K action (d0, d1, d2') s"
  by (simp add: step_forward_def)

text \<open>
  C2. In a physics substep the only torques sent to the engine by the agent's own torque
  methods are \<open>[dstb[0], 0, 0]\<close> and \<open>[0, dstb[1], 0]\<close>, both on link 4 in the link frame,
  and the substep does not depend on \<open>dstb[2]\<close>.
\<close>

theorem step_forward_disturbance_channels:
  assumes act: "apply_action K (trace s) (drone s) action = ((motor_forces, z_torque), dr1)"
  shows "filter is_external_torque (new_calls s (step_forward K action (d0, d1, d2) s)) =
           [ApplyExternalTorque (body_unique_id dr1) 4 (d0, 0, 0) LINK_FRAME,
            ApplyExternalTorque (body_unique_id dr1) 4 (0, d1, 0) LINK_FRAME]
         \<and> step_forward K action (d0, d1, d2) s = step_forward K action (d0, d1, d2') s"
proof -
  obtain ground where g: "set ground \<subseteq> {Apply_motor_forces f | f. True}"
    and nc: "new_calls s (step_forward K action (d0, d1, d2) s) =
             [Apply_action action, Apply_motor_forces motor_forces, Apply_z_torque z_torque,
              ApplyExternalTorque (body_unique_id dr1) 4 (d0, 0, 0) LINK_FRAME,
              ApplyExternalTorque (body_unique_id dr1) 4 (0, d1, 0) LINK_FRAME,
              Apply_force (drag_force K dr1), Calculate_ground_effect motor_forces]
             @ ground @ [StepSimulation, Update_information]"
    using step_forward_new_calls [OF act, of "(d0, d1, d2)"] by auto
  have "filter is_external_torque (new_calls s (step_forward K action (d0, d1, d2) s)) =
           [ApplyExternalTorque (body_unique_id dr1) 4 (d0, 0, 0) LINK_FRAME,
            ApplyExternalTorque (body_unique_id dr1) 4 (0, d1, 0) LINK_FRAME]"
    unfolding nc by (simp add: filter_ground [OF g] is_external_torque_def)
  then show ?thesis using step_forward_ignores_z by blast
qed

theorem step_forward_disturbance_channels_witness:
  "filter is_external_torque (new_calls spinning_sim
      (step_forward lag_agent [0, 0, 0, 0] (1 / 1000, - 1 / 1000, 1 / 10000) spinning_sim)) =
     [ApplyExternalTorque 0 4 (1 / 1000, 0, 0) LINK_FRAME,
      ApplyExternalTorque 0 4 (0, - 1 / 1000, 0) LINK_FRAME]
   \<and> step_forward lag_agent [0, 0, 0, 0] (1 / 1000, - 1 / 1000, 1 / 10000) spinning_sim
       = step_forward lag_agent [0, 0, 0, 0] (1 / 1000, - 1 / 1000, 0) spinning_sim"
proof -
  have b: "body_unique_id half_spin = 0"
    by (simp add: half_spin_def spinning_sim_def hover_state_def)
  show ?thesis
    by (rule step_forward_disturbance_channels
          [OF lag_agent_act, of "1 / 1000" "- 1 / 1000" "1 / 10000" 0, unfolded b])
qed

text \<open>
  C6. With zero linear velocity the drag force is the zero vector, whatever the motor
  state, the drag coefficient and the orientation.
\<close>

theorem drag_zero_velocity:
  assumes "xyz_dot dr = (0, 0, 0)"
  shows "drag_force K dr = (0, 0, 0)"
proof -
  obtain r0 r1 r2 where m: "getMatrixFromQuaternion K (quaternion dr) = (r0, r1, r2)"
    by (cases "getMatrixFromQuaternion K (quaternion dr)") auto
  have z: "dot3 r (0, 0, 0) = 0" for r
    by (cases r) (auto simp: dot3_def)
  show ?thesis
    by (simp add: drag_force_def Let_def assms scale_def np_dot_def m z)
qed

theorem drag_zero_velocity_witness:
  "xyz_dot spinning_at_rest = (0, 0, 0) \<and> motor_x spinning_at_rest = [1, 1, 1, 1]
   \<and> drag_force lag_agent spinning_at_rest = (0, 0, 0)"
proof -
  have v: "xyz_dot spinning_at_rest = (0, 0, 0)"
    by (simp add: spinning_at_rest_def)
  show ?thesis
    using v drag_zero_velocity [OF v, of lag_agent]
    by (simp add: spinning_at_rest_def spinning_sim_def)
qed





section \<open>Properties of the control step and of the disturbance generator\<close>

lemma step_forward_ext:
  fixes dstb :: vec3
  shows "\<exists>ext. trace (step_forward K action dstb s) = trace s @ ext
           \<and> filter is_step_forward ext = []
           \<and> filter (\<lambda>c. c = Box_sample) ext = []
           \<and> length (filter (\<lambda>c. c = StepSimulation) ext) = 1"
proof -
  obtain motor_forces z_torque dr1 where
    act: "apply_action K (trace s) (drone s) action = ((motor_forces, z_torque), dr1)"
    by (metis surj_pair)
  let ?queued = "[Apply_action action, Apply_motor_forces motor_forces, Apply_z_torque z_torque,
      ApplyExternalTorque (body_unique_id dr1) 4 (fst dstb, 0, 0) LINK_FRAME,
      ApplyExternalTorque (body_unique_id dr1) 4 (0, fst (snd dstb), 0) LINK_FRAME,
      Apply_force (drag_force K dr1)]"
  obtain ag gf where ge:
    "calculate_ground_effect K (trace s @ ?queued) dr1 motor_forces = (ag, gf)"
    by (metis surj_pair)
  show ?thesis
    unfolding step_forward_trace [OF act ge]
    by (intro exI conjI, rule refl) (simp_all add: is_step_forward_def)
qed

lemma substeps_ext:
  "\<exists>ext. trace (substeps K n action dstb s) = trace s @ ext
         \<and> filter is_step_forward ext = replicate n (Physics_step_forward action dstb)
         \<and> filter (\<lambda>c. c = Box_sample) ext = []
         \<and> length (filter (\<lambda>c. c = StepSimulation) ext) = n"
proof (induction n arbitrary: s)
  case 0
  then show ?case by simp
next
  case (Suc n)
  let ?s0 = "emit (Physics_step_forward action dstb) s"
  let ?s1 = "step_forward K action dstb ?s0"
  let ?s3 = "(emit Compute_observation ?s1) \<lparr> iteration := iteration (emit Compute_observation ?s1) + 1 \<rparr>"
  obtain e1 where e1: "trace ?s1 = trace ?s0 @ e1" "filter is_step_forward e1 = []"
    "filter (\<lambda>c. c = Box_sample) e1 = []" "length (filter (\<lambda>c. c = StepSimulation) e1) = 1"
    using step_forward_ext [of K action dstb ?s0] by auto
  obtain e2 where e2: "trace (substeps K n action dstb ?s3) = trace ?s3 @ e2"
    "filter is_step_forward e2 = replicate n (Physics_step_forward action dstb)"
    "filter (\<lambda>c. c = Box_sample) e2 = []" "length (filter (\<lambda>c. c = StepSimulation) e2) = n"
    using Suc.IH [of ?s3] by auto
  have t3: "trace ?s3 = trace s @ [Physics_step_forward action dstb] @ e1 @ [Compute_observation]"
    by (simp add: trace_emit e1)
  have "trace (substeps K (Suc n) action dstb s)
          = trace s @ ([Physics_step_forward action dstb] @ e1 @ [Compute_observation] @ e2)"
    by (simp add: Let_def e2 t3)
  moreover have "filter is_step_forward ([Physics_step_forward action dstb] @ e1 @ [Compute_observation] @ e2)
          = replicate (Suc n) (Physics_step_forward action dstb)"
    by (simp add: e1 e2 is_step_forward_def)
  moreover have "filter (\<lambda>c. c = Box_sample) ([Physics_step_forward action dstb] @ e1 @ [Compute_observation] @ e2) = []"
    by (simp add: e1 e2)
  moreover have "length (filter (\<lambda>c. c = StepSimulation) ([Physics_step_forward action dstb] @ e1 @ [Compute_observation] @ e2)) = Suc n"
    by (simp add: e1 e2)
  ultimately show ?case by blast
qed

lemma dstb_gen_state:
  "trace (snd (dstb_gen x s)) = trace s @ [Box_sample]"
  "aggregate_phy_steps (snd (dstb_gen x s)) = aggregate_phy_steps s"
  by (simp_all add: dstb_gen_def Let_def split_def emit_def)

text \<open>
  C3. A call of \<^verbatim>\<open>step\<close> asks for the state and samples the disturbance before anything
  else, samples it exactly once, calls \<^verbatim>\<open>physics.step_forward\<close> exactly
  \<open>aggregate_phy_steps\<close> times, every time with the action it was given and with that one
  sample, and so advances the engine exactly \<open>aggregate_phy_steps\<close> times.
\<close>

theorem step_substeps:
  "let calls = new_calls s (snd (step K action s));
       n = nat (aggregate_phy_steps s);
       dstb = step_dstb K s
   in take 2 calls = [Get_state, Box_sample]
      \<and> filter (\<lambda>c. c = Box_sample) calls = [Box_sample]
      \<and> filter is_step_forward calls = replicate n (Physics_step_forward action dstb)
      \<and> length (filter (\<lambda>c. c = StepSimulation) calls) = n"
proof -
  let ?x = "get_state K (trace s) (drone s)"
  let ?s1 = "emit Get_state s"
  let ?s2 = "snd (dstb_gen ?x ?s1)"
  let ?d = "step_dstb K s"
  let ?n = "nat (aggregate_phy_steps s)"
  let ?s3 = "substeps K ?n action ?d ?s2"
  have n: "aggregate_phy_steps ?s2 = aggregate_phy_steps s"
    by (simp add: dstb_gen_state emit_def)
  have t2: "trace ?s2 = trace s @ [Get_state, Box_sample]"
    by (simp add: dstb_gen_state trace_emit)
  obtain ext where ext: "trace ?s3 = trace ?s2 @ ext"
    "filter is_step_forward ext = replicate ?n (Physics_step_forward action ?d)"
    "filter (\<lambda>c. c = Box_sample) ext = []" "length (filter (\<lambda>c. c = StepSimulation) ext) = ?n"
    using substeps_ext [of K ?n action ?d ?s2] by auto
  have st: "snd (step K action s) =
      (emit Compute_info (emit (Compute_reward action) (emit Compute_history ?s3)))
        \<lparr> last_action := action \<rparr>"
    by (simp add: step_def Let_def split_def step_dstb_def n)
  have "trace (snd (step K action s))
          = trace s @ ([Get_state, Box_sample] @ ext @ [Compute_history, Compute_reward action, Compute_info])"
    unfolding st by (simp add: trace_emit ext(1) t2)
  then have nc: "new_calls s (snd (step K action s))
          = [Get_state, Box_sample] @ ext @ [Compute_history, Compute_reward action, Compute_info]"
    by (rule new_calls_append)
  show ?thesis
    unfolding Let_def nc by (simp add: ext is_step_forward_def)
qed

lemma spinning_dstb: "step_dstb lag_agent spinning_sim = (0, 0, 0)"
  by (simp add: step_dstb_def dstb_gen_def Box_sample_of_def uniform_def random_sample_def
      spinning_sim_def configured_dstb_space_def emit_def Let_def power_int_minus)

theorem step_substeps_witness:
  "take 2 (new_calls spinning_sim (snd (step lag_agent [0, 0, 0, 0] spinning_sim)))
      = [Get_state, Box_sample]
   \<and> filter (\<lambda>c. c = Box_sample) (new_calls spinning_sim (snd (step lag_agent [0, 0, 0, 0] spinning_sim)))
      = [Box_sample]
   \<and> filter is_step_forward (new_calls spinning_sim (snd (step lag_agent [0, 0, 0, 0] spinning_sim)))
      = [Physics_step_forward [0, 0, 0, 0] (0, 0, 0), Physics_step_forward [0, 0, 0, 0] (0, 0, 0)]
   \<and> length (filter (\<lambda>c. c = StepSimulation)
        (new_calls spinning_sim (snd (step lag_agent [0, 0, 0, 0] spinning_sim)))) = 2"
proof -
  have n: "nat (aggregate_phy_steps spinning_sim) = Suc (Suc 0)"
    by (simp add: spinning_sim_def)
  show ?thesis
    using step_substeps [of spinning_sim lag_agent "[0, 0, 0, 0]"]
    unfolding Let_def spinning_dstb n by simp
qed

lemma uniform_within:
  assumes "0 \<le> draws gen (pos gen)" "draws gen (pos gen) < 1" "0 \<le> b"
  shows "- b \<le> fst (uniform (- b) b gen) \<and> fst (uniform (- b) b gen) \<le> b"
proof -
  let ?u = "draws gen (pos gen)"
  have "fst (uniform (- b) b gen) = - b + (b - - b) * ?u"
    by (simp add: uniform_def random_sample_def)
  also have "\<dots> = - b + 2 * b * ?u" by simp
  finally have eq: "fst (uniform (- b) b gen) = - b + 2 * b * ?u" .
  have "0 \<le> 2 * b * ?u" using assms by simp
  moreover have "2 * b * ?u \<le> 2 * b"
    using assms by (simp add: mult_left_le)
  ultimately show ?thesis unfolding eq by simp
qed

lemma uniform_rng:
  "draws (snd (uniform lo hi gen)) = draws gen" "pos (snd (uniform lo hi gen)) = pos gen + 1"
  by (simp_all add: uniform_def random_sample_def)

text \<open>
  C4. The disturbance box set up by \<^verbatim>\<open>__init__\<close> has the bounds 0.001, 0.001 and 0.0001,
  and every vector that \<^verbatim>\<open>dstb_gen\<close> returns from it lies within them, bounds included,
  for draws of the random source in the unit interval.
\<close>

theorem dstb_gen_within_bounds:
  assumes u: "\<forall>k. 0 \<le> draws (np_random s) k \<and> draws (np_random s) k < 1"
  shows "dstb_space (init_dstb s) =
           \<lparr> low = (- (1 / 1000), - (1 / 1000), - (1 / 10000)),
             high = (1 / 1000, 1 / 1000, 1 / 10000) \<rparr>
         \<and> (case fst (dstb_gen x (init_dstb s)) of (d0, d1, d2) \<Rightarrow>
              - (1 / 1000) \<le> d0 \<and> d0 \<le> 1 / 1000
              \<and> - (1 / 1000) \<le> d1 \<and> d1 \<le> 1 / 1000
              \<and> - (1 / 10000) \<le> d2 \<and> d2 \<le> 1 / 10000)"
proof -
  let ?g = "np_random s"
  let ?ga = "snd (uniform (- (1 / 1000)) (1 / 1000) ?g)"
  let ?gb = "snd (uniform (- (1 / 1000)) (1 / 1000) ?ga)"
  have sp: "dstb_space (init_dstb s) =
           \<lparr> low = (- (1 / 1000), - (1 / 1000), - (1 / 10000)),
             high = (1 / 1000, 1 / 1000, 1 / 10000) \<rparr>"
    by (simp add: init_dstb_def configured_dstb_space_def power_int_minus)
  have rg: "np_random (init_dstb s) = ?g" by (simp add: init_dstb_def)
  have d: "fst (dstb_gen x (init_dstb s)) =
             (fst (uniform (- (1 / 1000)) (1 / 1000) ?g),
              fst (uniform (- (1 / 1000)) (1 / 1000) ?ga),
              fst (uniform (- (1 / 10000)) (1 / 10000) ?gb))"
    by (simp add: dstb_gen_def Box_sample_of_def sp rg Let_def split_def)
  have a0: "0 \<le> draws ?g (pos ?g)" "draws ?g (pos ?g) < 1" using u by auto
  have a1: "0 \<le> draws ?ga (pos ?ga)" "draws ?ga (pos ?ga) < 1" using u by (auto simp: uniform_rng)
  have a2: "0 \<le> draws ?gb (pos ?gb)" "draws ?gb (pos ?gb) < 1" using u by (auto simp: uniform_rng)
  show ?thesis
    unfolding d using sp uniform_within [OF a0, of "1 / 1000"] uniform_within [OF a1, of "1 / 1000"]
      uniform_within [OF a2, of "1 / 10000"]
    by simp
qed

text \<open>A draw of 0 gives the lower bound itself: the bound is attained.\<close>

lemma edge_draws_unit:
  "\<forall>k. 0 \<le> draws (np_random edge_draws_sim) k \<and> draws (np_random edge_draws_sim) k < 1"
  by (simp add: edge_draws_sim_def)

lemma edge_draws_sample:
  "fst (dstb_gen [] (init_dstb edge_draws_sim)) = (- (1 / 1000), 1 / 2000, 1 / 20000)"
  by (simp add: dstb_gen_def Box_sample_of_def uniform_def random_sample_def init_dstb_def
      configured_dstb_space_def edge_draws_sim_def Let_def power_int_minus)

theorem dstb_gen_within_bounds_witness:
  "case fst (dstb_gen [] (init_dstb edge_draws_sim)) of (d0, d1, d2) \<Rightarrow>
     - (1 / 1000) \<le> d0 \<and> d0 \<le> 1 / 1000
     \<and> - (1 / 1000) \<le> d1 \<and> d1 \<le> 1 / 1000
     \<and> - (1 / 10000) \<le> d2 \<and> d2 \<le> 1 / 10000"
  by (rule conjunct2 [OF dstb_gen_within_bounds [OF edge_draws_unit]])

text \<open>
  C5. The disturbance generator does not depend on its state argument: for the same
  environment, and so the same random source, two states give the same sample.
\<close>

theorem dstb_gen_ignores_state: "dstb_gen x1 s = dstb_gen x2 s"
  by (simp add: dstb_gen_def)

theorem dstb_gen_ignores_state_witness:
  "dstb_gen [0, 0, 1] spinning_sim = dstb_gen [5, 5, 0] spinning_sim"
  by (rule dstb_gen_ignores_state)

section \<open>Properties of the simulation setup\<close>

lemma setup_trace_log: "setup_trace (log c e) = setup_trace e @ [c]"
  by (simp add: log_def)

text \<open>
  C10. For every \<open>drone_model\<close> other than \<open>cf21x_bullet\<close>, \<open>cf21x_sys_eq\<close> and
  \<open>cf21x_bullet_adversary\<close>, \<^verbatim>\<open>_setup_simulation\<close> raises \<^verbatim>\<open>NotImplementedError\<close> before
  an agent or a physics object is constructed: \<^verbatim>\<open>self.drone\<close>, \<^verbatim>\<open>self.physics\<close> and the
  physics module are as they were. By then the search path has been set and the plane
  and the room have been loaded, and nothing else.
\<close>

theorem setup_simulation_unknown_model:
  assumes "drone_model e \<notin> {''cf21x_bullet'', ''cf21x_sys_eq'', ''cf21x_bullet_adversary''}"
  shows "fst (setup_simulation plane_id physics_name e) = Some NotImplementedError
         \<and> agent (snd (setup_simulation plane_id physics_name e)) = agent e
         \<and> physics (snd (setup_simulation plane_id physics_name e)) = physics e
         \<and> physics_module (snd (setup_simulation plane_id physics_name e)) = physics_module e
         \<and> PLANE_ID (snd (setup_simulation plane_id physics_name e)) = Some plane_id
         \<and> setup_trace (snd (setup_simulation plane_id physics_name e)) =
             setup_trace e @ [SetAdditionalSearchPath, Bc_loadURDF ''plane.urdf'',
                              Pb_loadURDF_asset ''room_10x10.urdf'']"
  using assms by (simp add: setup_simulation_def Let_def log_def)

lemma unknown_model_is_unknown:
  "drone_model unknown_model_env \<notin> {''cf21x_bullet'', ''cf21x_sys_eq'', ''cf21x_bullet_adversary''}"
  by (simp add: unknown_model_env_def)

theorem setup_simulation_unknown_model_witness:
  "fst (setup_simulation 0 ''PybulletPhysicsWithAdversary'' unknown_model_env)
      = Some NotImplementedError
   \<and> agent (snd (setup_simulation 0 ''PybulletPhysicsWithAdversary'' unknown_model_env)) = None
   \<and> physics (snd (setup_simulation 0 ''PybulletPhysicsWithAdversary'' unknown_model_env)) = None"
  using setup_simulation_unknown_model [OF unknown_model_is_unknown, of 0 "''PybulletPhysicsWithAdversary''"]
  by (simp add: unknown_model_env_def)

text \<open>With the adversary model and its physics the setup runs through.\<close>

lemma setup_simulation_adversary:
  "fst (setup_simulation 0 ''PybulletPhysicsWithAdversary'' adversary_env) = None
   \<and> agent (snd (setup_simulation 0 ''PybulletPhysicsWithAdversary'' adversary_env))
       = Some CrazyFlieBulletAgentWithAdversary
   \<and> physics (snd (setup_simulation 0 ''PybulletPhysicsWithAdversary'' adversary_env))
       = Some ''PybulletPhysicsWithAdversary''"
  by (simp add: setup_simulation_def setup_physics_def setup_task_specifics_def Let_def log_def
      adversary_env_def unknown_model_env_def)

section \<open>Properties of the action wrapper\<close>

lemma np_binop_same_length:
  "length xs = length ys \<Longrightarrow> np_binop f xs ys = Inr (map2 f xs ys)"
  by (simp add: np_binop_def)

lemma and_then_Inr: "and_then (Inr v) f = f v"
  by (simp add: and_then_def)

lemma normalize_exact:
  fixes a lo hi :: "'a::field list"
  assumes "length lo = length a" "length hi = length a"
  shows "normalize_action (\<lambda>x. x) lo hi a =
           Inr (map (\<lambda>i. 2 * ((a ! i - lo ! i) / (hi ! i - lo ! i)) - 1) [0..<length a])"
  using assms
  by (simp add: normalize_action_def np_binop_same_length and_then_Inr)
     (rule nth_equalityI, simp_all)

lemma denormalize_exact:
  fixes a lo hi :: "'a::field list"
  assumes "length lo = length a" "length hi = length a"
  shows "denormalize_action (\<lambda>x. x) lo hi a =
           Inr (map (\<lambda>i. (a ! i + 1) / 2 * (hi ! i - lo ! i) + lo ! i) [0..<length a])"
  using assms
  by (simp add: denormalize_action_def Let_def np_binop_same_length and_then_Inr)
     (rule nth_equalityI, simp_all)

lemma nth_map_upt_index: "j < m \<Longrightarrow> map F [0..<m] ! j = F j"
  by simp

lemma affine_there_back:
  fixes v l h :: "'a::linordered_field"
  assumes "l < h"
  shows "(2 * ((v - l) / (h - l)) - 1 + 1) / 2 * (h - l) + l = v"
    and "2 * (((v + 1) / 2 * (h - l) + l - l) / (h - l)) - 1 = v"
  using assms by (simp_all add: field_simps)

text \<open>
  C8 (as amended). In exact arithmetic, for bounds with \<open>low < high\<close> in every component
  and an action of their shape, \<^verbatim>\<open>denormalize_action\<close> after \<^verbatim>\<open>normalize_action\<close> and
  \<^verbatim>\<open>normalize_action\<close> after \<^verbatim>\<open>denormalize_action\<close> both return the action, and
  \<^verbatim>\<open>denormalize_action\<close> maps the all -1 vector to the low bound and the all +1 vector to
  the high bound.
\<close>

theorem normalize_denormalize_exact:
  fixes a lo hi :: "'a::linordered_field list"
  assumes len: "length a = length lo" and lt: "list_all2 (<) lo hi"
  shows "and_then (normalize_action (\<lambda>x. x) lo hi a) (denormalize_action (\<lambda>x. x) lo hi) = Inr a
       \<and> and_then (denormalize_action (\<lambda>x. x) lo hi a) (normalize_action (\<lambda>x. x) lo hi) = Inr a
       \<and> denormalize_action (\<lambda>x. x) lo hi (replicate (length lo) (- 1)) = Inr lo
       \<and> denormalize_action (\<lambda>x. x) lo hi (replicate (length lo) 1) = Inr hi"
proof -
  have lh: "length hi = length lo" using lt by (simp add: list_all2_lengthD)
  have i: "lo ! i < hi ! i" if "i < length lo" for i
    using lt that by (simp add: list_all2_nthD)
  let ?n = "map (\<lambda>i. 2 * ((a ! i - lo ! i) / (hi ! i - lo ! i)) - 1) [0..<length a]"
  let ?d = "map (\<lambda>i. (a ! i + 1) / 2 * (hi ! i - lo ! i) + lo ! i) [0..<length a]"
  have n: "normalize_action (\<lambda>x. x) lo hi a = Inr ?n"
    by (rule normalize_exact) (simp_all add: len lh)
  have d: "denormalize_action (\<lambda>x. x) lo hi a = Inr ?d"
    by (rule denormalize_exact) (simp_all add: len lh)
  have "denormalize_action (\<lambda>x. x) lo hi ?n =
          Inr (map (\<lambda>i. (?n ! i + 1) / 2 * (hi ! i - lo ! i) + lo ! i) [0..<length ?n])"
    by (rule denormalize_exact) (simp_all add: len lh)
  also have "map (\<lambda>i. (?n ! i + 1) / 2 * (hi ! i - lo ! i) + lo ! i) [0..<length ?n] = a"
  proof (rule nth_equalityI)
    show "length (map (\<lambda>i. (?n ! i + 1) / 2 * (hi ! i - lo ! i) + lo ! i) [0..<length ?n]) = length a"
      by simp
  next
    fix j assume "j < length (map (\<lambda>i. (?n ! i + 1) / 2 * (hi ! i - lo ! i) + lo ! i) [0..<length ?n])"
    then have j: "j < length a" by simp
    then have "lo ! j < hi ! j" using i len by simp
    then have rt: "(2 * ((a ! j - lo ! j) / (hi ! j - lo ! j)) - 1 + 1) / 2 * (hi ! j - lo ! j) + lo ! j = a ! j"
      by (rule affine_there_back(1))
    have nj: "?n ! j = 2 * ((a ! j - lo ! j) / (hi ! j - lo ! j)) - 1"
      by (rule nth_map_upt_index [OF j])
    have "map (\<lambda>i. (?n ! i + 1) / 2 * (hi ! i - lo ! i) + lo ! i) [0..<length ?n] ! j
            = (?n ! j + 1) / 2 * (hi ! j - lo ! j) + lo ! j"
      by (rule nth_map_upt_index) (simp add: j)
    then show "map (\<lambda>i. (?n ! i + 1) / 2 * (hi ! i - lo ! i) + lo ! i) [0..<length ?n] ! j = a ! j"
      unfolding nj using rt by (rule trans)
  qed
  finally have dn: "denormalize_action (\<lambda>x. x) lo hi ?n = Inr a" .
  have "normalize_action (\<lambda>x. x) lo hi ?d =
          Inr (map (\<lambda>i. 2 * ((?d ! i - lo ! i) / (hi ! i - lo ! i)) - 1) [0..<length ?d])"
    by (rule normalize_exact) (simp_all add: len lh)
  also have "map (\<lambda>i. 2 * ((?d ! i - lo ! i) / (hi ! i - lo ! i)) - 1) [0..<length ?d] = a"
  proof (rule nth_equalityI)
    show "length (map (\<lambda>i. 2 * ((?d ! i - lo ! i) / (hi ! i - lo ! i)) - 1) [0..<length ?d]) = length a"
      by simp
  next
    fix j assume "j < length (map (\<lambda>i. 2 * ((?d ! i - lo ! i) / (hi ! i - lo ! i)) - 1) [0..<length ?d])"
    then have j: "j < length a" by simp
    then have "lo ! j < hi ! j" using i len by simp
    then have rt: "2 * (((a ! j + 1) / 2 * (hi ! j - lo ! j) + lo ! j - lo ! j) / (hi ! j - lo ! j)) - 1 = a ! j"
      by (rule affine_there_back(2))
    have dj: "?d ! j = (a ! j + 1) / 2 * (hi ! j - lo ! j) + lo ! j"
      by (rule nth_map_upt_index [OF j])
    have "map (\<lambda>i. 2 * ((?d ! i - lo ! i) / (hi ! i - lo ! i)) - 1) [0..<length ?d] ! j
            = 2 * ((?d ! j - lo ! j) / (hi ! j - lo ! j)) - 1"
      by (rule nth_map_upt_index) (simp add: j)
    then show "map (\<lambda>i. 2 * ((?d ! i - lo ! i) / (hi ! i - lo ! i)) - 1) [0..<length ?d] ! j = a ! j"
      unfolding dj using rt by (rule trans)
  qed
  finally have nd: "normalize_action (\<lambda>x. x) lo hi ?d = Inr a" .
  let ?m = "replicate (length lo) (- 1 :: 'a)"
  have "denormalize_action (\<lambda>x. x) lo hi ?m =
          Inr (map (\<lambda>i. (?m ! i + 1) / 2 * (hi ! i - lo ! i) + lo ! i) [0..<length ?m])"
    by (rule denormalize_exact) (simp_all add: lh)
  also have "map (\<lambda>i. (?m ! i + 1) / 2 * (hi ! i - lo ! i) + lo ! i) [0..<length ?m] = lo"
    by (rule nth_equalityI) simp_all
  finally have dlo: "denormalize_action (\<lambda>x. x) lo hi ?m = Inr lo" .
  let ?p = "replicate (length lo) (1 :: 'a)"
  have "denormalize_action (\<lambda>x. x) lo hi ?p =
          Inr (map (\<lambda>i. (?p ! i + 1) / 2 * (hi ! i - lo ! i) + lo ! i) [0..<length ?p])"
    by (rule denormalize_exact) (simp_all add: lh)
  also have "map (\<lambda>i. (?p ! i + 1) / 2 * (hi ! i - lo ! i) + lo ! i) [0..<length ?p] = hi"
    by (rule nth_equalityI) (simp_all add: lh field_simps)
  finally have dhi: "denormalize_action (\<lambda>x. x) lo hi ?p = Inr hi" .
  show ?thesis
    by (simp only: n d and_then_Inr dn nd dlo dhi simp_thms)
qed

theorem normalize_denormalize_exact_witness:
  "and_then (normalize_action (\<lambda>x. x) [0, - 1] [3, 1] [1 / 10, 1 / 2 :: real])
      (denormalize_action (\<lambda>x. x) [0, - 1] [3, 1]) = Inr [1 / 10, 1 / 2]
   \<and> denormalize_action (\<lambda>x. x) [0, - 1] [3, 1] [- 1, - 1 :: real] = Inr [0, - 1]
   \<and> denormalize_action (\<lambda>x. x) [0, - 1] [3, 1] [1, 1 :: real] = Inr [3, 1]"
  using normalize_denormalize_exact [of "[1 / 10, 1 / 2 :: real]" "[0, - 1]" "[3, 1]"]
  by (simp add: numeral_2_eq_2)

text \<open>
  In floating-point arithmetic the round trip is not exact. With the bounds -1 and 1 and
  the float64 nearest to 0.1 as the action, \<open>a - low\<close> rounds to the float64 nearest to
  1.1, and the round trip returns 0.10000000000000009 (in float32: 0.10000002).
\<close>

theorem normalize_denormalize_float_counterexample:
  "and_then (normalize_action (fl 53) [- 1] [1] [fl 53 (1 / 10)]) (denormalize_action (fl 53) [- 1] [1])
     \<noteq> Inr [fl 53 (1 / 10)]"
  by code_simp

lemma float64_one_tenth:
  "fl 53 (1 / 10) = 3602879701896397 / 36028797018963968"
  by code_simp

lemma float64_round_trip:
  "and_then (normalize_action (fl 53) [- 1] [1] [fl 53 (1 / 10)]) (denormalize_action (fl 53) [- 1] [1])
     = Inr [225179981368525 / 2251799813685248]"
  by code_simp

lemma float32_round_trip:
  "fl 24 (1 / 10) = 13421773 / 134217728
   \<and> and_then (normalize_action (fl 24) [- 1] [1] [fl 24 (1 / 10)]) (denormalize_action (fl 24) [- 1] [1])
     = Inr [838861 / 8388608]"
  by code_simp

text \<open>
  The error of the round trip need not be small: with the bounds \<open>-2\<^sup>6\<^sup>0\<close> and \<open>2\<^sup>6\<^sup>0\<close> the
  action 1 comes back as 0 in float64.
\<close>

lemma float64_wide_bounds_round_trip:
  "and_then (normalize_action (fl 53) [- (2 ^ 60)] [2 ^ 60] [1])
      (denormalize_action (fl 53) [- (2 ^ 60)] [2 ^ 60]) = Inr [0]"
  by code_simp

text \<open>Rounding at work: representable numbers stay, ties go to the even significand.\<close>

lemma fl_examples:
  "fl 53 1 = 1" "fl 53 (- 3 / 4) = - 3 / 4" "fl 53 (1 + 1 / 2 ^ 53) = 1"
  "fl 53 (1 + 3 / 2 ^ 53) = 1 + 1 / 2 ^ 51" "fl 24 16777217 = 16777216"
  by code_simp+

end
